theory Spec2Isabelle
  imports Main
begin

section \<open>Exceptions\<close>

text \<open>
  The exception classes the three source files raise, catch or let through.  The module
  \<^verbatim>\<open>keystoneclient.exceptions\<close> declares them; each one is modelled as a constructor that
  carries the message the exception was created with.  \<open>RuntimeError\<close> is Python's own,
  \<open>OtherException\<close> stands for any exception of a class that none of the handlers names.
\<close>

datatype exn =
    CommandError string
  | Unauthorized string
  | AuthorizationFailure string
  | NoMatchingPlugin string
  | RuntimeError string
  | OtherException string



section \<open>keystoneclient/shell.py: the env helper\<close>

text \<open>
  \<^verbatim>\<open>
  def env(*vars, **kwargs):
      for v in vars:
          value = os.environ.get(v, None)
          if value:
              return value
      return kwargs.get('default', '')
  \<close>
  \<open>os.environ\<close> is a map from names to values, \<open>kwargs\<close> the keyword arguments of the call.
  \<^verbatim>\<open>if value\<close> is false for \<open>None\<close> (the variable is not set) and for the empty string.
\<close>

fun env :: "(string \<rightharpoonup> string) \<Rightarrow> string list \<Rightarrow> (string \<rightharpoonup> string) \<Rightarrow> string" where
  "env environ [] kwargs = (case kwargs ''default'' of None \<Rightarrow> '''' | Some d \<Rightarrow> d)"
| "env environ (v # vars) kwargs =
     (case environ v of
        None \<Rightarrow> env environ vars kwargs
      | Some value \<Rightarrow> if value \<noteq> '''' then value else env environ vars kwargs)"


section \<open>keystoneclient/auth/base.py: plugin lookup\<close>

text \<open>
  Modelled from the spec: \<^verbatim>\<open>stevedore.DriverManager\<close>, the discovery mechanism behind the
  PluginRegistry, is a library outside the repository.  The registry is the table of the
  spec's data model, a map from a plugin identifier to a plugin constructor; the manager
  for a name holds the driver registered under that name, and creating it for a name with no
  entry raises \<open>RuntimeError\<close>.
\<close>

record 'cls DriverManager =
  driver :: 'cls

definition stevedore_DriverManager ::
    "(string \<rightharpoonup> 'cls) \<Rightarrow> string \<Rightarrow> exn + 'cls DriverManager" where
  "stevedore_DriverManager registry name =
     (case registry name of
        None \<Rightarrow> Inl (RuntimeError (''No driver found, looking for '' @ name))
      | Some cls \<Rightarrow> Inr \<lparr>driver = cls\<rparr>)"

text \<open>
  \<^verbatim>\<open>
  def get_plugin_class(name):
      try:
          mgr = stevedore.DriverManager(namespace=PLUGIN_NAMESPACE, name=name,
                                        invoke_on_load=False)
      except RuntimeError:
          msg = 'The plugin %s could not be found' % name
          raise exceptions.NoMatchingPlugin(msg)
      return mgr.driver
  \<close>
  Only \<open>RuntimeError\<close> is caught; any other exception of the manager passes through.
\<close>

definition get_plugin_class :: "(string \<rightharpoonup> 'cls) \<Rightarrow> string \<Rightarrow> exn + 'cls" where
  "get_plugin_class registry name =
     (case stevedore_DriverManager registry name of
        Inl (RuntimeError _) \<Rightarrow>
          Inl (NoMatchingPlugin (''The plugin '' @ name @ '' could not be found''))
      | Inl e \<Rightarrow> Inl e
      | Inr mgr \<Rightarrow> Inr (driver mgr))"


section \<open>keystoneclient/shell.py: the shell\<close>

subsection \<open>Parsed command lines\<close>

text \<open>
  \<open>argparse\<close> is a library outside the repository; the model starts from the namespaces
  it returns.  \<open>get_base_parser\<close> declares the global arguments, so the first parse
  (\<^verbatim>\<open>parse_known_args\<close>) yields an \<open>options\<close> namespace.  Every global argument except the
  two flags has \<^verbatim>\<open>default=env(...)\<close>, a string, so each of them holds a string.
  The second parse, by the subcommand parser, yields the same attributes and the two that
  a subcommand adds: \<open>func\<close>, the callback set by \<^verbatim>\<open>set_defaults(func=callback)\<close>, and
  \<open>command\<close>, the optional positional argument of \<^verbatim>\<open>help\<close>.
\<close>

text \<open>
  A callback is either the shell's own \<open>do_help\<close> or a \<^verbatim>\<open>do_...\<close> function of an actions
  module, known by its name and by whether it carries the mark that it needs no
  authentication.
\<close>

datatype callback = do_help_method | Action string bool

record options =
  help_flag :: bool
  debug :: bool
  username :: string
  password :: string
  tenant_name :: string
  os_tenant_id :: string
  auth_url :: string
  region_name :: string
  identity_api_version :: string
  token :: string
  endpoint :: string

record args = options +
  func :: callback
  command :: "string option"

text \<open>
  Modelled from the spec: \<^verbatim>\<open>utils.isunauthenticated\<close> is not among the source files; it
  reads the capability flag on the callback that marks a command as not requiring
  authentication.  \<open>do_help\<close> is decorated with \<^verbatim>\<open>utils.arg\<close> only and carries no such mark.
\<close>

fun isunauthenticated :: "callback \<Rightarrow> bool" where
  "isunauthenticated do_help_method = False"
| "isunauthenticated (Action name unauthenticated) = unauthenticated"

subsection \<open>Collaborators and state\<close>

text \<open>
  Keyword arguments of a client constructor, in the order the call writes them.  A value is
  a string or \<open>None\<close>.
\<close>

datatype pyval = PyNone | PyStr string

type_synonym kwargs = "(string \<times> pyval) list"

text \<open>
  What the shell calls and does not define: the client classes of the two actions modules
  (\<^verbatim>\<open>shell_generic.CLIENT_CLASS\<close>, \<^verbatim>\<open>shell_v2_0.CLIENT_CLASS\<close>), whose constructors may
  raise, the callbacks themselves, and the table \<open>subcommands\<close> that \<^verbatim>\<open>_find_actions\<close>
  fills.  They are parameters of the model.  All network traffic happens inside the
  constructors and the callbacks.
\<close>

record 'c collaborators =
  subcommands :: "string list"
  generic_CLIENT_CLASS :: "kwargs \<Rightarrow> exn + 'c"
  v2_0_CLIENT_CLASS :: "kwargs \<Rightarrow> exn + 'c"
  invoke :: "callback \<Rightarrow> 'c \<Rightarrow> args \<Rightarrow> exn + unit"

text \<open>
  The state the shell changes: the module variable \<^verbatim>\<open>httplib2.debuglevel\<close>, the attribute
  \<^verbatim>\<open>self.cs\<close>, and a log of the calls made to the collaborators and to the help printer,
  latest last.
\<close>

datatype call =
    Print_help "string option"
  | New_generic_client kwargs
  | New_api_client kwargs
  | Invoke callback

record 'c state =
  debuglevel :: int
  cs :: "'c option"
  calls :: "call list"

definition log :: "call \<Rightarrow> 'c state \<Rightarrow> 'c state" where
  "log c st = st\<lparr>calls := calls st @ [c]\<rparr>"

subsection \<open>The methods\<close>

text \<open>
  \<^verbatim>\<open>
  def get_api_class(self, version):
      try:
          return {"2.0": shell_v2_0.CLIENT_CLASS}[version]
      except KeyError:
          return shell_v2_0.CLIENT_CLASS
  \<close>
\<close>

definition get_api_class :: "'c collaborators \<Rightarrow> string \<Rightarrow> kwargs \<Rightarrow> exn + 'c" where
  "get_api_class self version =
     (case map_of [(''2.0'', v2_0_CLIENT_CLASS self)] version of
        Some cls \<Rightarrow> cls
      | None \<Rightarrow> v2_0_CLIENT_CLASS self)"

text \<open>
  \<^verbatim>\<open>
  def do_help(self, args):
      if getattr(args, 'command', None):
          if args.command in self.subcommands:
              self.subcommands[args.command].print_help()
          else:
              raise exc.CommandError("'%s' is not a valid subcommand" % args.command)
      else:
          self.parser.print_help()
  \<close>
  The argument is \<^verbatim>\<open>getattr(args, 'command', None)\<close>: \<open>None\<close> for the namespace of the first
  parse, which has no such attribute.
\<close>

definition do_help ::
    "'c collaborators \<Rightarrow> string option \<Rightarrow> 'c state \<Rightarrow> (exn + unit) \<times> 'c state" where
  "do_help self cmd st =
     (case cmd of
        None \<Rightarrow> (Inr (), log (Print_help None) st)
      | Some c \<Rightarrow>
          if c \<noteq> '''' then
            if c \<in> set (subcommands self) then (Inr (), log (Print_help (Some c)) st)
            else (Inl (CommandError
                    ([CHR 0x27] @ c @ [CHR 0x27] @ '' is not a valid subcommand'')), st)
          else (Inr (), log (Print_help None) st))"

text \<open>
  Lines 181 to 193 of \<^verbatim>\<open>main\<close>, the presence checks; the result is the exception raised,
  if any.
  \<^verbatim>\<open>
  if not utils.isunauthenticated(args.func):
      if not (args.token and args.endpoint):
          if not args.username:
              raise exc.CommandError("You must provide a username "
                      "via either --username or env[OS_USERNAME]")
          if not args.password:
              raise exc.CommandError("You must provide a password "
                      "via either --password or env[OS_PASSWORD]")
          if not args.auth_url:
              raise exc.CommandError("You must provide an auth url "
                      "via either --auth_url or via env[OS_AUTH_URL]")
  \<close>
\<close>

definition presence_checks :: "args \<Rightarrow> exn option" where
  "presence_checks args =
     (if \<not> isunauthenticated (func args) then
        if \<not> (token args \<noteq> '''' \<and> endpoint args \<noteq> '''') then
          if username args = '''' then
            Some (CommandError
              ''You must provide a username via either --username or env[OS_USERNAME]'')
          else if password args = '''' then
            Some (CommandError
              ''You must provide a password via either --password or env[OS_PASSWORD]'')
          else if auth_url args = '''' then
            Some (CommandError
              ''You must provide an auth url via either --auth_url or via env[OS_AUTH_URL]'')
          else None
        else None
      else None)"

text \<open>
  Lines 195 to 212, the construction of the client.
  \<^verbatim>\<open>
  if utils.isunauthenticated(args.func):
      self.cs = shell_generic.CLIENT_CLASS(endpoint=args.auth_url)
  else:
      token = None
      endpoint = None
      if args.token and args.endpoint:
          token = args.token
          endpoint = args.endpoint
      api_version = options.identity_api_version
      self.cs = self.get_api_class(api_version)(
          username=args.username, tenant_name=args.tenant_name,
          tenant_id=args.os_tenant_id, token=token, endpoint=endpoint,
          password=args.password, auth_url=args.auth_url,
          region_name=args.region_name)
  \<close>
\<close>

definition api_client_kwargs :: "args \<Rightarrow> kwargs" where
  "api_client_kwargs args =
     (let (token', endpoint') =
            (if token args \<noteq> '''' \<and> endpoint args \<noteq> ''''
             then (PyStr (token args), PyStr (endpoint args))
             else (PyNone, PyNone))
      in [(''username'', PyStr (username args)),
          (''tenant_name'', PyStr (tenant_name args)),
          (''tenant_id'', PyStr (os_tenant_id args)),
          (''token'', token'),
          (''endpoint'', endpoint'),
          (''password'', PyStr (password args)),
          (''auth_url'', PyStr (auth_url args)),
          (''region_name'', PyStr (region_name args))])"

definition make_client ::
    "'c collaborators \<Rightarrow> options \<Rightarrow> args \<Rightarrow> 'c state \<Rightarrow> (exn + 'c) \<times> 'c state" where
  "make_client self options args st =
     (if isunauthenticated (func args) then
        (let kw = [(''endpoint'', PyStr (auth_url args))];
             st' = log (New_generic_client kw) st
         in case generic_CLIENT_CLASS self kw of
              Inl e \<Rightarrow> (Inl e, st')
            | Inr c \<Rightarrow> (Inr c, st'\<lparr>cs := Some c\<rparr>))
      else
        (let kw = api_client_kwargs args;
             api_version = identity_api_version options;
             st' = log (New_api_client kw) st
         in case get_api_class self api_version kw of
              Inl e \<Rightarrow> (Inl e, st')
            | Inr c \<Rightarrow> (Inr c, st'\<lparr>cs := Some c\<rparr>)))"

text \<open>
  Lines 214 to 219, the call of the command.
  \<^verbatim>\<open>
  try:
      args.func(self.cs, args)
  except exc.Unauthorized:
      raise exc.CommandError("Invalid OpenStack Identity credentials.")
  except exc.AuthorizationFailure:
      raise exc.CommandError("Unable to authorize user")
  \<close>
\<close>

definition call_command ::
    "'c collaborators \<Rightarrow> 'c \<Rightarrow> args \<Rightarrow> 'c state \<Rightarrow> (exn + int option) \<times> 'c state" where
  "call_command self c args st =
     (let st' = log (Invoke (func args)) st
      in case invoke self (func args) c args of
           Inl (Unauthorized _) \<Rightarrow>
             (Inl (CommandError ''Invalid OpenStack Identity credentials.''), st')
         | Inl (AuthorizationFailure _) \<Rightarrow>
             (Inl (CommandError ''Unable to authorize user''), st')
         | Inl e \<Rightarrow> (Inl e, st')
         | Inr _ \<Rightarrow> (Inr None, st'))"

text \<open>
  \<^verbatim>\<open>OpenStackIdentityShell.main\<close>, from the two parsed namespaces on.  It returns \<open>0\<close> after
  printing help and \<open>None\<close> after running a command; \<open>Inl\<close> is the exception it raises.
  \<^verbatim>\<open>
  if options.help:
      self.do_help(options)
      return 0
  args = subcommand_parser.parse_args(argv)
  if args.debug:
      httplib2.debuglevel = 1
  if args.func == self.do_help:
      self.do_help(args)
      return 0
  ... presence checks, client, command ...
  \<close>
\<close>

definition OpenStackIdentityShell_main ::
    "'c collaborators \<Rightarrow> options \<Rightarrow> args \<Rightarrow> 'c state \<Rightarrow> (exn + int option) \<times> 'c state" where
  "OpenStackIdentityShell_main self options args st =
     (if help_flag options then
        (case do_help self None st of
           (Inl e, st') \<Rightarrow> (Inl e, st')
         | (Inr _, st') \<Rightarrow> (Inr (Some 0), st'))
      else
        let st1 = (if debug args then st\<lparr>debuglevel := 1\<rparr> else st)
        in if func args = do_help_method then
             (case do_help self (command args) st1 of
                (Inl e, st') \<Rightarrow> (Inl e, st')
              | (Inr _, st') \<Rightarrow> (Inr (Some 0), st'))
           else
             (case presence_checks args of
                Some e \<Rightarrow> (Inl e, st1)
              | None \<Rightarrow>
                  (case make_client self options args st1 of
                     (Inl e, st2) \<Rightarrow> (Inl e, st2)
                   | (Inr c, st2) \<Rightarrow> call_command self c args st2)))"

subsection \<open>The entry point\<close>


definition fresh :: "'c state" where
  "fresh = \<lparr>debuglevel = 0, cs = None, calls = []\<rparr>"



section \<open>keystoneclient/auth/base.py: the plugin contract\<close>

text \<open>
  A plugin is an object with private state \<open>'p\<close>; a method takes the state and returns it
  changed.  \<open>get_token\<close> is abstract in \<open>BaseAuthPlugin\<close>: a plugin supplies it.  It returns
  a token, or \<open>None\<close> when no token could be retrieved, or raises.  \<open>invalidate\<close> returns
  whether there was something to invalidate.
\<close>

record 'p plugin =
  get_token :: "'p \<Rightarrow> (exn + string option) \<times> 'p"
  invalidate :: "'p \<Rightarrow> bool \<times> 'p"

text \<open>
  \<^verbatim>\<open>
  def invalidate(self):
      return False
  \<close>
  The default of the base class: nothing changes, the answer is \<open>False\<close>.
\<close>

definition BaseAuthPlugin_invalidate :: "'p \<Rightarrow> bool \<times> 'p" where
  "BaseAuthPlugin_invalidate p = (False, p)"

text \<open>
  Modelled from the spec: plugins with a cache are not among the source files.  By section
  4.2 such a plugin holds a cached AuthReference or none; \<open>invalidate\<close> discards it and
  returns \<open>true\<close> if state existed and was cleared, \<open>false\<close> if there was nothing to
  invalidate.
\<close>

definition caching_invalidate :: "'a option \<Rightarrow> bool \<times> 'a option" where
  "caching_invalidate cached = (cached \<noteq> None, None)"


section \<open>The Session\<close>

text \<open>
  Modelled from the spec: the Session is not among the source files.  Section 4.3 gives its
  state machine for one outgoing authenticated request:
  \<^enum> ask the plugin \<open>get_token\<close>; on \<open>null\<close> stop in \<open>Unauthenticatable\<close>, not retried;
  \<^enum> attach the token and issue the request;
  \<^enum> if the response signals unauthorized, call \<open>invalidate\<close>; if it returns \<open>true\<close> go
    back to the first step, exactly once; if it returns \<open>false\<close> stop in
    \<open>AuthorizationFailed\<close>;
  \<^enum> any other response: stop in \<open>Completed\<close>.

  The bound is a counter of the retries left, which the Session owns.  When the response to
  the retry is unauthorized again, no retry is left and the request stops in
  \<open>AuthorizationFailed\<close> without a second \<open>invalidate\<close> (section 8: invalidate exactly once,
  retry exactly once).  An exception of the plugin or of the transport passes unchanged to
  the caller (section 7).

  The downstream service is \<open>send\<close>: it takes the token attached and answers unauthorized
  or with some other response, or the transport raises.  Plugin and service share the
  world \<open>'w\<close>, so that either may depend on what the other did.  Every call is logged,
  \<open>invalidate\<close> with its answer.
\<close>

datatype 'r response = Unauthorized_response | Other_response 'r

datatype 'r terminal =
    Completed 'r
  | Unauthenticatable
  | AuthorizationFailed
  | Propagated exn

datatype event = Get_token | Send string | Invalidate bool

fun attempt ::
    "'w plugin \<Rightarrow> (string \<Rightarrow> 'w \<Rightarrow> (exn + 'r response) \<times> 'w) \<Rightarrow> nat \<Rightarrow> 'w \<Rightarrow> event list
       \<Rightarrow> 'r terminal \<times> 'w \<times> event list" where
  "attempt auth send retries w evs =
     (case get_token auth w of
        (Inl e, w1) \<Rightarrow> (Propagated e, w1, evs @ [Get_token])
      | (Inr None, w1) \<Rightarrow> (Unauthenticatable, w1, evs @ [Get_token])
      | (Inr (Some tok), w1) \<Rightarrow>
          (case send tok w1 of
             (Inl e, w2) \<Rightarrow> (Propagated e, w2, evs @ [Get_token, Send tok])
           | (Inr (Other_response r), w2) \<Rightarrow> (Completed r, w2, evs @ [Get_token, Send tok])
           | (Inr Unauthorized_response, w2) \<Rightarrow>
               (case retries of
                  0 \<Rightarrow> (AuthorizationFailed, w2, evs @ [Get_token, Send tok])
                | Suc n \<Rightarrow>
                    (case invalidate auth w2 of
                       (False, w3) \<Rightarrow>
                         (AuthorizationFailed, w3, evs @ [Get_token, Send tok, Invalidate False])
                     | (True, w3) \<Rightarrow>
                         attempt auth send n w3 (evs @ [Get_token, Send tok, Invalidate True])))))"

definition Session_request ::
    "'w plugin \<Rightarrow> (string \<Rightarrow> 'w \<Rightarrow> (exn + 'r response) \<times> 'w) \<Rightarrow> 'w
       \<Rightarrow> 'r terminal \<times> 'w \<times> event list" where
  "Session_request auth send w = attempt auth send 1 w []"

text \<open>How often the request was sent, and how often the plugin was invalidated.\<close>

fun is_send :: "event \<Rightarrow> bool" where
  "is_send (Send tok) = True"
| "is_send ev = False"

definition sends :: "event list \<Rightarrow> nat" where
  "sends evs = length (filter is_send evs)"

definition invalidations :: "event list \<Rightarrow> nat" where
  "invalidations evs = count_list evs (Invalidate True) + count_list evs (Invalidate False)"

text \<open>A retry is a send after the first.\<close>

definition retries_made :: "event list \<Rightarrow> nat" where
  "retries_made evs = sends evs - 1"


text \<open>
  The simulated plugins of section 8.  \<open>static_plugin\<close> holds a fixed token and no cache; it
  inherits \<open>invalidate\<close> from the base class.  \<open>reauthenticating_plugin\<close> caches the token
  it obtained and obtains a fresh one after \<open>invalidate\<close>.  Both always produce a token.
  \<open>always_unauthorized\<close> is a service that rejects every token.
\<close>

definition static_plugin :: "unit plugin" where
  "static_plugin =
     \<lparr>get_token = (\<lambda>p. (Inr (Some ''static-token''), p)),
      invalidate = BaseAuthPlugin_invalidate\<rparr>"

definition reauthenticating_plugin :: "string option plugin" where
  "reauthenticating_plugin =
     \<lparr>get_token = (\<lambda>cached. case cached of
                       Some tok \<Rightarrow> (Inr (Some tok), cached)
                     | None \<Rightarrow> (Inr (Some ''fresh-token''), Some ''fresh-token'')),
      invalidate = caching_invalidate\<rparr>"

definition always_unauthorized :: "string \<Rightarrow> 'w \<Rightarrow> (exn + unit response) \<times> 'w" where
  "always_unauthorized tok w = (Inr Unauthorized_response, w)"


section \<open>AuthReference, its serialized form, and the client built from it\<close>

text \<open>
  Modelled from the spec: the AuthReference, its serialization and the client class
  (\<^verbatim>\<open>keystoneclient.v2_0.client.Client\<close>) are not among the source files; only their test,
  \<^verbatim>\<open>tests/test_client.py\<close>, is.  By section 3 an AuthReference has a raw response payload
  (opaque structured data), a token value, an optional expiration timestamp, the scoping
  flag, an optional management endpoint URL and an identity (username, tenant name, tenant
  id), each of which may be null.
\<close>

datatype json =
    JNull
  | JBool bool
  | JNumber int
  | JString string
  | JArray "json list"
  | JObject "(string \<times> json) list"

record AuthReference =
  raw_payload :: json
  token_value :: string
  expiration :: "string option"
  scoped :: bool
  management_url :: "string option"
  ref_username :: "string option"
  ref_tenant_name :: "string option"
  ref_tenant_id :: "string option"

text \<open>
  Modelled from the spec: by section 6 the serialized form is a structured, self-describing
  record with named fields.  Here it is an object with one member for each field that is
  present; a field that is absent has no member.
\<close>

definition optional_field :: "string \<Rightarrow> string option \<Rightarrow> (string \<times> json) list" where
  "optional_field key v = (case v of None \<Rightarrow> [] | Some s \<Rightarrow> [(key, JString s)])"

definition serialize :: "AuthReference \<Rightarrow> json" where
  "serialize r =
     JObject ([(''payload'', raw_payload r),
               (''token'', JString (token_value r)),
               (''scoped'', JBool (scoped r))]
              @ optional_field ''expires'' (expiration r)
              @ optional_field ''management_url'' (management_url r)
              @ optional_field ''username'' (ref_username r)
              @ optional_field ''tenant_name'' (ref_tenant_name r)
              @ optional_field ''tenant_id'' (ref_tenant_id r))"

text \<open>
  Reading a member: \<open>None\<close> is a value of the wrong kind, which makes the whole blob
  unreadable.
\<close>

fun as_string :: "json \<Rightarrow> string option" where
  "as_string (JString s) = Some s"
| "as_string j = None"

fun as_bool :: "json \<Rightarrow> bool option" where
  "as_bool (JBool b) = Some b"
| "as_bool j = None"

definition read_optional :: "(string \<times> json) list \<Rightarrow> string \<Rightarrow> string option option" where
  "read_optional members key =
     (case map_of members key of
        None \<Rightarrow> Some None
      | Some j \<Rightarrow> map_option Some (as_string j))"

definition read_members :: "(string \<times> json) list \<Rightarrow> AuthReference option" where
  "read_members members =
     Option.bind (map_of members ''payload'') (\<lambda>payload.
     Option.bind (Option.bind (map_of members ''token'') as_string) (\<lambda>tok.
     Option.bind (Option.bind (map_of members ''scoped'') as_bool) (\<lambda>sc.
     Option.bind (read_optional members ''expires'') (\<lambda>ex.
     Option.bind (read_optional members ''management_url'') (\<lambda>mu.
     Option.bind (read_optional members ''username'') (\<lambda>un.
     Option.bind (read_optional members ''tenant_name'') (\<lambda>tn.
     Option.bind (read_optional members ''tenant_id'') (\<lambda>ti.
       Some \<lparr>raw_payload = payload, token_value = tok, expiration = ex, scoped = sc,
             management_url = mu, ref_username = un, ref_tenant_name = tn,
             ref_tenant_id = ti\<rparr>))))))))"

fun deserialize :: "json \<Rightarrow> AuthReference option" where
  "deserialize (JObject members) = read_members members"
| "deserialize j = None"

text \<open>
  Modelled from the spec: the client.  Its options are the credentials of the password
  plugin and, instead of them, a reference restored from a persisted blob.  Built from a
  reference, the client takes its identity and its management endpoint from the reference
  and performs no exchange (section 6: a path that must work even when no credentials are
  supplied at all).  Built from credentials, it performs the exchange of the password
  plugin, which is the parameter \<open>exchange\<close> (the wire-level transport is an external
  collaborator): given the auth URL, the username and the password, it yields an
  AuthReference or fails.  With neither, construction fails.
\<close>

record client_options =
  opt_username :: "string option"
  opt_password :: "string option"
  opt_auth_url :: "string option"
  opt_auth_ref :: "AuthReference option"

record Client =
  auth_ref :: "AuthReference option"
  client_username :: "string option"
  client_password :: "string option"
  client_management_url :: "string option"

definition Client_init ::
    "(string \<Rightarrow> string \<Rightarrow> string \<Rightarrow> exn + AuthReference) \<Rightarrow> client_options \<Rightarrow> exn + Client" where
  "Client_init exchange opts =
     (case opt_auth_ref opts of
        Some r \<Rightarrow>
          Inr \<lparr>auth_ref = Some r,
               client_username =
                 (case opt_username opts of Some u \<Rightarrow> Some u | None \<Rightarrow> ref_username r),
               client_password = opt_password opts,
               client_management_url = management_url r\<rparr>
      | None \<Rightarrow>
          (case opt_username opts of
             None \<Rightarrow> Inl (OtherException ''no credentials'')
           | Some u \<Rightarrow>
               (case opt_password opts of
                  None \<Rightarrow> Inl (OtherException ''no credentials'')
                | Some p \<Rightarrow>
                    (case opt_auth_url opts of
                       None \<Rightarrow> Inl (OtherException ''no credentials'')
                     | Some a \<Rightarrow>
                         (case exchange a u p of
                            Inl e \<Rightarrow> Inl e
                          | Inr r \<Rightarrow>
                              Inr \<lparr>auth_ref = Some r,
                                   client_username = Some u,
                                   client_password = Some p,
                                   client_management_url = management_url r\<rparr>)))))"




section \<open>Example inputs\<close>

text \<open>
  A command line with no help flag and every global argument empty, and the namespace of
  the second parse for a callback, the debug flag, and the values of \<^verbatim>\<open>--username\<close>,
  \<^verbatim>\<open>--password\<close>, \<^verbatim>\<open>--auth_url\<close>, \<^verbatim>\<open>--token\<close> and \<^verbatim>\<open>--endpoint\<close>; an argument that
  is not given and whose environment variable is not set is the empty string.
\<close>

definition no_help :: options where
  "no_help =
     \<lparr>help_flag = False, debug = False, username = '''', password = '''', tenant_name = '''',
      os_tenant_id = '''', auth_url = '''', region_name = '''', identity_api_version = '''',
      token = '''', endpoint = ''''\<rparr>"

definition invocation ::
    "callback \<Rightarrow> bool \<Rightarrow> string \<Rightarrow> string \<Rightarrow> string \<Rightarrow> string \<Rightarrow> string \<Rightarrow> args" where
  "invocation f dbg u p a t e =
     \<lparr>help_flag = False, debug = dbg, username = u, password = p, tenant_name = '''',
      os_tenant_id = '''', auth_url = a, region_name = '''', identity_api_version = '''',
      token = t, endpoint = e, func = f, command = None\<rparr>"

text \<open>
  Collaborators whose client constructors always succeed and whose callbacks are always
  refused by the server.
\<close>

definition rejecting_service :: "unit collaborators" where
  "rejecting_service =
     \<lparr>subcommands = [''user-list'', ''discover'', ''help''],
      generic_CLIENT_CLASS = (\<lambda>kw. Inr ()),
      v2_0_CLIENT_CLASS = (\<lambda>kw. Inr ()),
      invoke = (\<lambda>f c a. Inl (Unauthorized ''The request you have made requires authentication.''))\<rparr>"





section \<open>The env helper\<close>

lemma env_find:
  "env environ vars kwargs =
     (case find (\<lambda>v. case environ v of None \<Rightarrow> False | Some x \<Rightarrow> x \<noteq> '''') vars of
        Some v \<Rightarrow> the (environ v)
      | None \<Rightarrow> (case kwargs ''default'' of None \<Rightarrow> '''' | Some d \<Rightarrow> d))"
  by (induction vars) (auto split: option.splits)

lemma env_empty_undefined:
  "env (environ(k \<mapsto> '''')) vars kwargs = env (environ(k := None)) vars kwargs"
  by (induction vars) (auto split: option.splits)

text \<open>
  Claim C10.  \<open>env\<close> returns the value of the first listed variable that is set to a
  non-empty value, and otherwise the default given, the empty string if none is given; a
  variable set to the empty string counts exactly as one that is not set.
\<close>

theorem env_first_set_nonempty:
  "env environ vars kwargs =
     (case find (\<lambda>v. case environ v of None \<Rightarrow> False | Some x \<Rightarrow> x \<noteq> '''') vars of
        Some v \<Rightarrow> the (environ v)
      | None \<Rightarrow> (case kwargs ''default'' of None \<Rightarrow> '''' | Some d \<Rightarrow> d))
   \<and> env (environ(k \<mapsto> '''')) vars kwargs = env (environ(k := None)) vars kwargs"
  using env_find env_empty_undefined by blast


section \<open>Plugin lookup\<close>

text \<open>
  Claim C1.  For a registered name \<open>get_plugin_class\<close> returns the class bound to it; for a
  name with no entry it raises \<open>NoMatchingPlugin\<close>, and the \<open>RuntimeError\<close> of the lookup
  never reaches the caller.
\<close>

theorem get_plugin_class_resolves:
  "(\<forall>cls. registry name = Some cls \<longrightarrow> get_plugin_class registry name = Inr cls)
   \<and> (registry name = None \<longrightarrow>
        get_plugin_class registry name =
          Inl (NoMatchingPlugin (''The plugin '' @ name @ '' could not be found'')))
   \<and> (\<forall>m. get_plugin_class registry name \<noteq> Inl (RuntimeError m))"
  by (cases "registry name") (simp_all add: get_plugin_class_def stevedore_DriverManager_def)

theorem get_plugin_class_resolves_witness:
  "get_plugin_class [''password'' \<mapsto> (1::nat)] ''password'' = Inr 1
   \<and> get_plugin_class [''password'' \<mapsto> (1::nat)] ''token'' =
        Inl (NoMatchingPlugin ''The plugin token could not be found'')"
  using get_plugin_class_resolves [of "[''password'' \<mapsto> (1::nat)]" "''password''"]
        get_plugin_class_resolves [of "[''password'' \<mapsto> (1::nat)]" "''token''"]
  by simp


section \<open>The shell\<close>

text \<open>
  When the help flag is absent and the callback is a command, \<open>main\<close> is the presence
  checks, the construction of the client and the call.
\<close>

lemma main_command:
  assumes "\<not> help_flag options" and "func args = Action name u"
  shows "OpenStackIdentityShell_main self options args st =
           (let st1 = (if debug args then st\<lparr>debuglevel := 1\<rparr> else st)
            in case presence_checks args of
                 Some e \<Rightarrow> (Inl e, st1)
               | None \<Rightarrow>
                   (case make_client self options args st1 of
                      (Inl e, st2) \<Rightarrow> (Inl e, st2)
                    | (Inr c, st2) \<Rightarrow> call_command self c args st2))"
  using assms by (simp add: OpenStackIdentityShell_main_def Let_def)

lemma get_api_class_v2 [simp]: "get_api_class self version = v2_0_CLIENT_CLASS self"
  by (simp add: get_api_class_def)

text \<open>
  Claim C5.  An invocation of a command is a command line without the help flag whose
  callback is a command, not \<open>do_help\<close> (the help flag and the help pseudo-command print
  usage and return before any check).  For a command that is not marked unauthenticated,
  with a username, an empty password, and not both a token and an endpoint, \<open>main\<close> raises
  the \<open>CommandError\<close> that asks for a password.  No client has been constructed and no
  callback called by then: the log of calls and \<open>self.cs\<close> are as before.
\<close>

theorem missing_password_fails_first:
  assumes "\<not> help_flag options" and "func args = Action name False"
    and "username args \<noteq> ''''" and "password args = ''''"
    and "\<not> (token args \<noteq> '''' \<and> endpoint args \<noteq> '''')"
  shows "\<exists>st'. OpenStackIdentityShell_main self options args st =
           (Inl (CommandError
              (''You must provide a '' @ ''password'' @
               '' via either --password or env[OS_PASSWORD]'')), st')
         \<and> calls st' = calls st \<and> cs st' = cs st"
  using assms by (auto simp add: main_command [OF assms(1,2)] presence_checks_def Let_def)

theorem missing_password_fails_first_witness:
  "\<exists>st'. OpenStackIdentityShell_main rejecting_service no_help
            (invocation (Action ''user-list'' False) False ''admin'' '''' ''http://auth:5000/v2.0''
               ''secret-token'' '''') fresh =
           (Inl (CommandError
              ''You must provide a password via either --password or env[OS_PASSWORD]''), st')
         \<and> calls st' = []"
  using missing_password_fails_first [of no_help
          "invocation (Action ''user-list'' False) False ''admin'' '''' ''http://auth:5000/v2.0''
             ''secret-token'' ''''" "''user-list''" rejecting_service fresh]
  by (auto simp add: no_help_def invocation_def fresh_def)

text \<open>
  Claim C6.  For a command marked as not requiring authentication the presence checks
  raise nothing, whatever username, password and auth URL are, also when all are empty:
  \<open>main\<close> constructs the generic client with \<^verbatim>\<open>endpoint=args.auth_url\<close> and calls the
  command.  An exception, if any, is one of that constructor or of the command.
\<close>

theorem unauthenticated_command_bypasses_checks:
  assumes "\<not> help_flag options" and "func args = Action name True"
  shows "presence_checks args = None
         \<and> OpenStackIdentityShell_main self options args st =
             (let st1 = (if debug args then st\<lparr>debuglevel := 1\<rparr> else st);
                  kw = [(''endpoint'', PyStr (auth_url args))];
                  st2 = log (New_generic_client kw) st1
              in case generic_CLIENT_CLASS self kw of
                   Inl e \<Rightarrow> (Inl e, st2)
                 | Inr c \<Rightarrow> call_command self c args (st2\<lparr>cs := Some c\<rparr>))"
  using assms
  by (auto simp add: main_command [OF assms(1,2)] presence_checks_def make_client_def Let_def
           split: sum.splits)

theorem unauthenticated_command_bypasses_checks_witness:
  "presence_checks (invocation (Action ''discover'' True) False '''' '''' '''' '''' '''') = None
   \<and> calls (snd (OpenStackIdentityShell_main rejecting_service no_help
              (invocation (Action ''discover'' True) False '''' '''' '''' '''' '''') fresh)) =
       [New_generic_client [(''endpoint'', PyStr '''')], Invoke (Action ''discover'' True)]"
  using unauthenticated_command_bypasses_checks [of no_help
          "invocation (Action ''discover'' True) False '''' '''' '''' '''' ''''" "''discover''"
          rejecting_service fresh]
  by (simp add: no_help_def invocation_def fresh_def rejecting_service_def call_command_def
        log_def)

text \<open>
  Claim C9.  For a command that is not marked unauthenticated: when token and endpoint
  are both non-empty, no presence check is made, and the client of the API version is
  constructed with that token and that endpoint (and with username, password and auth URL
  as they are, empty or not).  When one of the two is empty, the checks for username,
  password and auth URL run in this order, and a failed check ends \<open>main\<close> at once.
\<close>

theorem token_and_endpoint_skip_checks:
  assumes "\<not> help_flag options" and "func args = Action name False"
  shows "(token args \<noteq> '''' \<and> endpoint args \<noteq> '''' \<longrightarrow>
            presence_checks args = None
            \<and> OpenStackIdentityShell_main self options args st =
               (let st1 = (if debug args then st\<lparr>debuglevel := 1\<rparr> else st);
                    kw = [(''username'', PyStr (username args)),
                          (''tenant_name'', PyStr (tenant_name args)),
                          (''tenant_id'', PyStr (os_tenant_id args)),
                          (''token'', PyStr (token args)),
                          (''endpoint'', PyStr (endpoint args)),
                          (''password'', PyStr (password args)),
                          (''auth_url'', PyStr (auth_url args)),
                          (''region_name'', PyStr (region_name args))];
                    st2 = log (New_api_client kw) st1
                in case v2_0_CLIENT_CLASS self kw of
                     Inl e \<Rightarrow> (Inl e, st2)
                   | Inr c \<Rightarrow> call_command self c args (st2\<lparr>cs := Some c\<rparr>)))
         \<and> (token args = '''' \<or> endpoint args = '''' \<longrightarrow>
              presence_checks args =
                (if username args = '''' then
                   Some (CommandError
                     ''You must provide a username via either --username or env[OS_USERNAME]'')
                 else if password args = '''' then
                   Some (CommandError
                     ''You must provide a password via either --password or env[OS_PASSWORD]'')
                 else if auth_url args = '''' then
                   Some (CommandError
                     ''You must provide an auth url via either --auth_url or via env[OS_AUTH_URL]'')
                 else None)
              \<and> (\<forall>e. presence_checks args = Some e \<longrightarrow>
                    OpenStackIdentityShell_main self options args st =
                      (Inl e, if debug args then st\<lparr>debuglevel := 1\<rparr> else st)))"
  using assms
  by (auto simp add: main_command [OF assms(1,2)] presence_checks_def make_client_def
        api_client_kwargs_def Let_def split: sum.splits)

theorem token_and_endpoint_skip_checks_witness:
  "calls (snd (OpenStackIdentityShell_main rejecting_service no_help
            (invocation (Action ''user-list'' False) False '''' '''' ''''
               ''secret-token'' ''http://admin:35357/v2.0'') fresh)) =
     [New_api_client
        [(''username'', PyStr ''''), (''tenant_name'', PyStr ''''), (''tenant_id'', PyStr ''''),
         (''token'', PyStr ''secret-token''), (''endpoint'', PyStr ''http://admin:35357/v2.0''),
         (''password'', PyStr ''''), (''auth_url'', PyStr ''''), (''region_name'', PyStr '''')],
      Invoke (Action ''user-list'' False)]
   \<and> OpenStackIdentityShell_main rejecting_service no_help
        (invocation (Action ''user-list'' False) False '''' '''' '''' ''secret-token'' '''') fresh =
       (Inl (CommandError
          ''You must provide a username via either --username or env[OS_USERNAME]''), fresh)"
  using token_and_endpoint_skip_checks [of no_help
          "invocation (Action ''user-list'' False) False '''' '''' ''''
             ''secret-token'' ''http://admin:35357/v2.0''" "''user-list''"
          rejecting_service fresh]
        token_and_endpoint_skip_checks [of no_help
          "invocation (Action ''user-list'' False) False '''' '''' '''' ''secret-token'' ''''"
          "''user-list''" rejecting_service fresh]
  by (simp add: no_help_def invocation_def fresh_def rejecting_service_def call_command_def
        log_def)












section \<open>The Session and the plugin\<close>

text \<open>The request with no retry left, and with one more.\<close>

lemma attempt_0:
  "attempt auth send 0 w evs =
     (case get_token auth w of
        (Inl e, w1) \<Rightarrow> (Propagated e, w1, evs @ [Get_token])
      | (Inr None, w1) \<Rightarrow> (Unauthenticatable, w1, evs @ [Get_token])
      | (Inr (Some tok), w1) \<Rightarrow>
          (case send tok w1 of
             (Inl e, w2) \<Rightarrow> (Propagated e, w2, evs @ [Get_token, Send tok])
           | (Inr (Other_response r), w2) \<Rightarrow> (Completed r, w2, evs @ [Get_token, Send tok])
           | (Inr Unauthorized_response, w2) \<Rightarrow>
               (AuthorizationFailed, w2, evs @ [Get_token, Send tok])))"
  by (simp split: prod.splits sum.splits option.splits response.splits)

lemma attempt_Suc:
  "attempt auth send (Suc n) w evs =
     (case get_token auth w of
        (Inl e, w1) \<Rightarrow> (Propagated e, w1, evs @ [Get_token])
      | (Inr None, w1) \<Rightarrow> (Unauthenticatable, w1, evs @ [Get_token])
      | (Inr (Some tok), w1) \<Rightarrow>
          (case send tok w1 of
             (Inl e, w2) \<Rightarrow> (Propagated e, w2, evs @ [Get_token, Send tok])
           | (Inr (Other_response r), w2) \<Rightarrow> (Completed r, w2, evs @ [Get_token, Send tok])
           | (Inr Unauthorized_response, w2) \<Rightarrow>
               (case invalidate auth w2 of
                  (False, w3) \<Rightarrow>
                    (AuthorizationFailed, w3, evs @ [Get_token, Send tok, Invalidate False])
                | (True, w3) \<Rightarrow>
                    attempt auth send n w3 (evs @ [Get_token, Send tok, Invalidate True]))))"
  by (simp split: prod.splits sum.splits option.splits response.splits)

declare attempt.simps [simp del]

text \<open>
  Whatever the plugin and the service do, a request is sent at most twice and the plugin
  is invalidated at most once.
\<close>

lemma request_bounds:
  "sends (snd (snd (Session_request auth send w))) \<le> 2
   \<and> invalidations (snd (snd (Session_request auth send w))) \<le> 1"
  unfolding Session_request_def One_nat_def attempt_Suc attempt_0
  by (simp add: sends_def invalidations_def
           split: prod.splits sum.splits option.splits response.splits bool.splits)

text \<open>
  Claim C2, as stated, fails: against a plugin that always produces a token and a service
  that always answers unauthorized, the Session does not always retry exactly once.  The
  static plugin has nothing to invalidate; its \<open>invalidate\<close>, the default of the base class,
  answers \<open>False\<close>, and by step 4 of the state machine the Session then stops without a
  retry.
\<close>

theorem retry_exactly_once_counterexample:
  "fst (get_token static_plugin ()) = Inr (Some ''static-token'')
   \<and> fst (always_unauthorized ''static-token'' ()) = Inr Unauthorized_response
   \<and> invalidations (snd (snd (Session_request static_plugin always_unauthorized ()))) = 1
   \<and> retries_made (snd (snd (Session_request static_plugin always_unauthorized ()))) \<noteq> 1"
  unfolding Session_request_def One_nat_def attempt_Suc attempt_0
  by (simp add: static_plugin_def always_unauthorized_def BaseAuthPlugin_invalidate_def
        sends_def invalidations_def retries_made_def)

text \<open>
  Claim C2, amended.  Against any plugin and any service, a request is sent at most twice
  (at most one retry) and the plugin is invalidated at most once; the request always
  terminates, \<open>Session_request\<close> being a total function.  Against a plugin whose
  \<open>get_token\<close> always succeeds and a service that always answers unauthorized, the Session
  calls \<open>invalidate\<close> exactly once and ends in \<open>AuthorizationFailed\<close>; it retries exactly
  once when that \<open>invalidate\<close> answered \<open>True\<close>, and not at all when it answered \<open>False\<close>.
\<close>

theorem retry_bound:
  "sends (snd (snd (Session_request auth send w))) \<le> 2
   \<and> invalidations (snd (snd (Session_request auth send w))) \<le> 1
   \<and> ((\<forall>w'. \<exists>tok w''. get_token auth w' = (Inr (Some tok), w''))
        \<and> (\<forall>tok w'. \<exists>w''. send tok w' = (Inr Unauthorized_response, w''))
      \<longrightarrow> fst (Session_request auth send w) = AuthorizationFailed
          \<and> invalidations (snd (snd (Session_request auth send w))) = 1
          \<and> retries_made (snd (snd (Session_request auth send w))) =
              (if Invalidate True \<in> set (snd (snd (Session_request auth send w)))
               then 1 else 0))"
proof -
  have "fst (Session_request auth send w) = AuthorizationFailed
          \<and> invalidations (snd (snd (Session_request auth send w))) = 1
          \<and> retries_made (snd (snd (Session_request auth send w))) =
              (if Invalidate True \<in> set (snd (snd (Session_request auth send w)))
               then 1 else 0)"
    if tokens: "\<forall>w'. \<exists>tok w''. get_token auth w' = (Inr (Some tok), w'')"
      and unauth: "\<forall>tok w'. \<exists>w''. send tok w' = (Inr Unauthorized_response, w'')"
  proof -
    obtain t1 w1 where g1: "get_token auth w = (Inr (Some t1), w1)"
      using tokens by blast
    obtain w2 where s1: "send t1 w1 = (Inr Unauthorized_response, w2)"
      using unauth by blast
    obtain b w3 where i1: "invalidate auth w2 = (b, w3)"
      by (cases "invalidate auth w2")
    obtain t2 w4 where g2: "get_token auth w3 = (Inr (Some t2), w4)"
      using tokens by blast
    obtain w5 where s2: "send t2 w4 = (Inr Unauthorized_response, w5)"
      using unauth by blast
    show ?thesis
      unfolding Session_request_def One_nat_def attempt_Suc attempt_0
      by (cases b)
         (simp_all add: g1 s1 i1 g2 s2 sends_def invalidations_def retries_made_def)
  qed
  then show ?thesis
    using request_bounds [of auth send w] by blast
qed

theorem retry_bound_witness:
  "fst (Session_request reauthenticating_plugin always_unauthorized None) = AuthorizationFailed
   \<and> invalidations
        (snd (snd (Session_request reauthenticating_plugin always_unauthorized None))) = 1
   \<and> retries_made
        (snd (snd (Session_request reauthenticating_plugin always_unauthorized None))) = 1"
proof -
  have tokens: "\<forall>w'. \<exists>tok w''. get_token reauthenticating_plugin w' = (Inr (Some tok), w'')"
    by (simp add: reauthenticating_plugin_def split: option.splits)
  have unauth: "\<forall>tok (w'::string option). \<exists>w''.
      (always_unauthorized tok w' :: (exn + unit response) \<times> _) = (Inr Unauthorized_response, w'')"
    by (simp add: always_unauthorized_def)
  have evs: "Invalidate True \<in> set (snd (snd (Session_request reauthenticating_plugin
               (always_unauthorized :: _ \<Rightarrow> _ \<Rightarrow> (exn + unit response) \<times> _) None)))"
    unfolding Session_request_def One_nat_def attempt_Suc attempt_0
    by (simp add: reauthenticating_plugin_def always_unauthorized_def caching_invalidate_def)
  show ?thesis
    using retry_bound [of reauthenticating_plugin always_unauthorized None] tokens unauth evs
    by simp
qed

text \<open>
  Claim C7.  The default \<open>invalidate\<close> of the base class answers \<open>False\<close> and changes
  nothing, and so does a caching plugin that holds no reference.  The Session retries only
  after an \<open>invalidate\<close> that answered \<open>True\<close>: when no such answer is in the log, and in
  particular when the plugin uses the default of the base class, the request was sent at
  most once.
\<close>

theorem no_state_no_retry:
  "BaseAuthPlugin_invalidate p = (False, p)
   \<and> caching_invalidate None = (False, None)
   \<and> (Invalidate True \<notin> set (snd (snd (Session_request auth send w)))
        \<longrightarrow> retries_made (snd (snd (Session_request auth send w))) = 0)
   \<and> (invalidate auth = BaseAuthPlugin_invalidate
        \<longrightarrow> retries_made (snd (snd (Session_request auth send w))) = 0)"
  unfolding Session_request_def One_nat_def attempt_Suc attempt_0
  by (simp add: BaseAuthPlugin_invalidate_def caching_invalidate_def
        sends_def retries_made_def
        split: prod.splits sum.splits option.splits response.splits bool.splits)

theorem no_state_no_retry_witness:
  "Session_request static_plugin always_unauthorized () =
     (AuthorizationFailed, (), [Get_token, Send ''static-token'', Invalidate False])
   \<and> retries_made (snd (snd (Session_request static_plugin always_unauthorized ()))) = 0"
proof -
  have run: "Session_request static_plugin always_unauthorized () =
     (AuthorizationFailed, (), [Get_token, Send ''static-token'', Invalidate False])"
    unfolding Session_request_def One_nat_def attempt_Suc attempt_0
    by (simp add: static_plugin_def always_unauthorized_def BaseAuthPlugin_invalidate_def)
  have "invalidate static_plugin = BaseAuthPlugin_invalidate"
    by (simp add: static_plugin_def)
  then show ?thesis
    using run no_state_no_retry [of "()" static_plugin always_unauthorized "()"] by blast
qed


section \<open>AuthReference\<close>

lemma deserialize_serialize: "deserialize (serialize r) = Some r"
proof (cases r)
  case (fields p t ex s mu un tn ti)
  show ?thesis
    unfolding fields
    by (cases ex; cases mu; cases un; cases tn; cases ti)
       (simp_all add: serialize_def read_members_def read_optional_def optional_field_def)
qed

text \<open>
  Claim C3.  Deserializing the serialized form of an AuthReference gives the reference
  back, every field equal, a field that was absent still absent.  A client constructed
  from the deserialized reference and no credential option at all is constructed without
  error and holds the reference, whatever the exchange would do.
\<close>

theorem auth_ref_round_trip:
  "deserialize (serialize r) = Some r
   \<and> (\<exists>cl. Client_init exchange
              \<lparr>opt_username = None, opt_password = None, opt_auth_url = None,
               opt_auth_ref = deserialize (serialize r)\<rparr> = Inr cl
           \<and> auth_ref cl = Some r)"
proof -
  have "deserialize (serialize r) = Some r"
    by (rule deserialize_serialize)
  then show ?thesis
    by (simp add: Client_init_def)
qed




end
